theory Spec2Isabelle
  imports Complex_Main "HOL-Library.Multiset"
begin

section \<open>JavaScript values used by the swarm\<close>

text \<open>
  A JavaScript number is modelled as an exact rational or \<open>NaN\<close>. The only divisions of
  the modelled code divide a count of selected elements by the length of the list they
  were selected from, so the only division by zero is \<open>0 / 0 = NaN\<close>; infinities do not
  arise. Comparisons with \<open>NaN\<close> are false, \<open>NaN\<close> and \<open>0\<close> are falsy.
\<close>

datatype js_number = NaN | Num rat

fun js_add :: "js_number \<Rightarrow> js_number \<Rightarrow> js_number" where
  "js_add (Num a) (Num b) = Num (a + b)"
| "js_add _ _ = NaN"

fun js_mul :: "js_number \<Rightarrow> js_number \<Rightarrow> js_number" where
  "js_mul (Num a) (Num b) = Num (a * b)"
| "js_mul _ _ = NaN"

text \<open>\<open>count / length\<close> for a count taken from a list of that length.\<close>

definition js_ratio :: "nat \<Rightarrow> nat \<Rightarrow> js_number" where
  "js_ratio k n = (if n = 0 then NaN else Num (of_nat k / of_nat n))"

fun js_gt :: "js_number \<Rightarrow> js_number \<Rightarrow> bool" where
  "js_gt (Num a) (Num b) = (a > b)"
| "js_gt _ _ = False"

fun js_ge :: "js_number \<Rightarrow> js_number \<Rightarrow> bool" where
  "js_ge (Num a) (Num b) = (a \<ge> b)"
| "js_ge _ _ = False"

text \<open>\<open>undefined\<close> converts to \<open>NaN\<close> in a numeric comparison.\<close>

fun to_number :: "js_number option \<Rightarrow> js_number" where
  "to_number None = NaN"
| "to_number (Some x) = x"

text \<open>\<open>x || d\<close> on an optional number: \<open>undefined\<close>, \<open>NaN\<close> and \<open>0\<close> are falsy.\<close>

fun or_default :: "js_number option \<Rightarrow> rat \<Rightarrow> js_number" where
  "or_default None d = Num d"
| "or_default (Some NaN) d = Num d"
| "or_default (Some (Num x)) d = (if x = 0 then Num d else Num x)"

text \<open>
  Errors: \<open>QueryTimeout a t\<close> is the error \<open>Query to a timed out after t ms\<close> of
  \<open>BaseAgent.query\<close>; the others carry their message.
\<close>

datatype js_error =
    QueryTimeout string nat
  | TypeError string
  | Error string

section \<open>Tasks and agents\<close>

record task =
  task_id :: string
  task_type :: "string option"
  description :: "string option"
  task_sender :: "string option"
  amount :: "js_number option"
  severity :: "string option"
  requiredSkills :: "string list option"
  preferredRole :: "string option"
  synthesisType :: "string option"

datatype agent_status = idle | busy | error | offline

record agent_metrics =
  tasksCompleted :: nat
  tasksFailed :: nat
  successRate :: js_number
  avgResponseTime :: js_number
  totalResponseTime :: nat

record agent =
  agent_id :: string
  role :: string
  codename :: string
  skills :: "string list"
  status :: agent_status
  metrics :: "agent_metrics option"

text \<open>The metrics every \<open>BaseAgent\<close> starts with.\<close>

definition initial_metrics :: agent_metrics where
  "initial_metrics =
     \<lparr>tasksCompleted = 0, tasksFailed = 0, successRate = Num 1,
      avgResponseTime = Num 0, totalResponseTime = 0\<rparr>"

text \<open>\<open>BaseAgent.updateMetrics(responseTime, success)\<close>.\<close>

definition updateMetrics :: "nat \<Rightarrow> bool \<Rightarrow> agent_metrics \<Rightarrow> agent_metrics" where
  "updateMetrics responseTime success m =
     (let m1 = (if success then m\<lparr>tasksCompleted := tasksCompleted m + 1\<rparr>
                else m\<lparr>tasksFailed := tasksFailed m + 1\<rparr>);
          m2 = m1\<lparr>totalResponseTime := totalResponseTime m1 + responseTime\<rparr>;
          m3 = m2\<lparr>avgResponseTime :=
                 js_ratio (totalResponseTime m2) (tasksCompleted m2 + tasksFailed m2)\<rparr>
      in m3\<lparr>successRate :=
             js_ratio (tasksCompleted m3) (tasksCompleted m3 + tasksFailed m3)\<rparr>)"

section \<open>Orchestrator: routing and scoring\<close>

text \<open>
  \<open>selectArchitecture\<close> looks the task's type up in an object literal,
  \<open>patterns[task.type] || patterns['default']\<close>, and calls what it finds with the task.
  A property lookup on an object literal also finds the properties inherited from
  \<open>Object.prototype\<close>; they are truthy, so the default is not taken for them. The
  result is therefore not always a string naming an architecture.
\<close>

datatype selection =
    Returned string
  | ReturnedTask
  | Thrown js_error

text \<open>The rule table, in the order of the literal.\<close>

definition patterns :: "(string \<times> (task \<Rightarrow> string)) list" where
  "patterns =
    [(''financial_approval'',
        \<lambda>t. if js_gt (to_number (amount t)) (Num 500) then ''council'' else ''sequential''),
     (''system_alert'',
        \<lambda>t. if severity t = Some ''critical'' then ''emergency'' else ''concurrent''),
     (''customer_inquiry'', \<lambda>t. ''concurrent''),
     (''strategic_planning'', \<lambda>t. ''sequential''),
     (''data_processing'', \<lambda>t. ''concurrent''),
     (''complex_analysis'', \<lambda>t. ''competitive''),
     (''default'', \<lambda>t. ''sequential'')]"

text \<open>
  What calling an inherited property of \<open>Object.prototype\<close> as \<open>selector(task)\<close> does
  (the call has no receiver): \<open>constructor\<close> is \<open>Object\<close>, which returns its argument;
  \<open>toString\<close> answers for an undefined receiver; \<open>__proto__\<close> is an object, not a
  function; the others convert the missing receiver to an object and throw.
\<close>

definition object_prototype :: "(string \<times> selection) list" where
  "object_prototype =
    [(''constructor'', ReturnedTask),
     (''toString'', Returned ''[object Undefined]''),
     (''__proto__'', Thrown (TypeError ''selector is not a function'')),
     (''toLocaleString'', Thrown (TypeError ''Cannot convert undefined or null to object'')),
     (''valueOf'', Thrown (TypeError ''Cannot convert undefined or null to object'')),
     (''hasOwnProperty'', Thrown (TypeError ''Cannot convert undefined or null to object'')),
     (''isPrototypeOf'', Thrown (TypeError ''Cannot convert undefined or null to object'')),
     (''propertyIsEnumerable'',
        Thrown (TypeError ''Cannot convert undefined or null to object'')),
     (''__defineGetter__'', Thrown (TypeError ''Cannot convert undefined or null to object'')),
     (''__defineSetter__'', Thrown (TypeError ''Cannot convert undefined or null to object'')),
     (''__lookupGetter__'', Thrown (TypeError ''Cannot convert undefined or null to object'')),
     (''__lookupSetter__'', Thrown (TypeError ''Cannot convert undefined or null to object''))]"

text \<open>A missing \<open>task.type\<close> is the property key \<open>'undefined'\<close>.\<close>

definition type_key :: "task \<Rightarrow> string" where
  "type_key t = (case task_type t of None \<Rightarrow> ''undefined'' | Some s \<Rightarrow> s)"

definition selectArchitecture :: "task \<Rightarrow> selection" where
  "selectArchitecture t =
     (case map_of patterns (type_key t) of
        Some selector \<Rightarrow> Returned (selector t)
      | None \<Rightarrow>
          (case map_of object_prototype (type_key t) of
             Some inherited \<Rightarrow> inherited
           | None \<Rightarrow> Returned ''sequential''))"

text \<open>
  \<open>calculateAgentScore(agent, task)\<close>. An array is truthy even when empty, so an empty
  \<open>requiredSkills\<close> divides \<open>0\<close> by \<open>0\<close>. \<open>agent.skills.filter(...)\<close> counts every element
  of the agent's skill list that the task requires.
\<close>

definition calculateAgentScore :: "agent \<Rightarrow> task \<Rightarrow> js_number" where
  "calculateAgentScore a t =
     (let s0 = Num 0;
          s1 = (case requiredSkills t of
                  Some req \<Rightarrow>
                    js_add s0
                      (js_mul (js_ratio (length (filter (\<lambda>s. s \<in> set req) (skills a)))
                                        (length req))
                              (Num (4 / 10)))
                | None \<Rightarrow> js_add s0 (Num (2 / 10)));
          s2 = js_add s1 (if status a = idle then Num (3 / 10) else Num (1 / 10));
          s3 = js_add s2
                 (js_mul (or_default (map_option successRate (metrics a)) (8 / 10))
                         (Num (2 / 10)));
          s4 = (case preferredRole t of
                  Some r \<Rightarrow> if r \<noteq> [] \<and> role a = r then js_add s3 (Num (1 / 10)) else s3
                | None \<Rightarrow> s3)
      in s4)"

section \<open>Request/response exchanges\<close>

text \<open>
  What an agent's \<open>processMessage\<close> hands back: an object whose properties depend on the
  strategy (\<open>vote\<close> and \<open>reasoning\<close> for a council, \<open>quality\<close>, \<open>confidence\<close>, \<open>data\<close> and
  \<open>agent\<close> for the parallel strategies). An absent property is \<open>None\<close>.
\<close>

record reply =
  vote :: "string option"
  reasoning :: "string option"
  quality :: "js_number option"
  confidence :: "js_number option"
  data :: "string option"
  source :: "string option"

datatype pipeline_value = TaskValue task | ReplyValue reply

record proposal =
  p_id :: string
  p_type :: "string option"
  p_description :: "string option"
  p_amount :: "js_number option"
  proposedBy :: string

datatype request =
    VoteRequest proposal
  | ConcurrentTask task
  | PipelineStep pipeline_value nat
  | CompetitiveTask task

text \<open>
  The strategies call \<open>agent.query(agent.id, request, timeout)\<close> on whatever object they
  are given and await the promise. An \<open>exchange\<close> gives the settlement of that promise:
  \<open>Inr\<close> the value it is fulfilled with, \<open>Inl\<close> the reason it is rejected with.
\<close>

type_synonym exchange = "agent \<Rightarrow> request \<Rightarrow> nat \<Rightarrow> js_error + reply"

subsection \<open>BaseAgent.query\<close>

text \<open>
  \<open>query\<close> creates a promise, arms a timer whose callback rejects the promise with a
  timeout error, and awaits \<open>this.send(...)\<close> inside the executor. Nothing calls
  \<open>resolve\<close>. The events that can follow the call: the timer fires; the awaited
  \<open>send\<close> settles (its deliveries are dropped, and a rejection of it rejects only the
  promise of the async executor, which nobody holds); a response envelope reaches the
  querying agent (it goes through \<open>receiveMessage\<close>, which knows nothing of the pending
  promise).
\<close>

datatype promise_state = Pending | Fulfilled reply | Rejected js_error

datatype query_event =
    TimerFired
  | SendFulfilled
  | SendRejected js_error
  | ResponseArrived reply

record query_state =
  promise :: promise_state
  timer_armed :: bool

definition query_start :: query_state where
  "query_start = \<lparr>promise = Pending, timer_armed = True\<rparr>"

text \<open>Rejecting a promise that is already settled does nothing.\<close>

definition reject :: "js_error \<Rightarrow> promise_state \<Rightarrow> promise_state" where
  "reject e p = (case p of Pending \<Rightarrow> Rejected e | _ \<Rightarrow> p)"

fun query_step :: "string \<Rightarrow> nat \<Rightarrow> query_state \<Rightarrow> query_event \<Rightarrow> query_state" where
  "query_step targetAgent timeout s TimerFired =
     (if timer_armed s
      then s\<lparr>promise := reject (QueryTimeout targetAgent timeout) (promise s),
              timer_armed := False\<rparr>
      else s)"
| "query_step targetAgent timeout s SendFulfilled = s"
| "query_step targetAgent timeout s (SendRejected e) = s"
| "query_step targetAgent timeout s (ResponseArrived r) = s"

definition query :: "string \<Rightarrow> nat \<Rightarrow> query_event list \<Rightarrow> query_state" where
  "query targetAgent timeout events = foldl (query_step targetAgent timeout) query_start events"

text \<open>What a caller awaiting the promise gets: nothing while it is pending.\<close>

fun settlement :: "promise_state \<Rightarrow> (js_error + reply) option" where
  "settlement Pending = None"
| "settlement (Fulfilled r) = Some (Inr r)"
| "settlement (Rejected e) = Some (Inl e)"

section \<open>Strategies\<close>

subsection \<open>Council\<close>

record council_vote =
  cv_agent :: string
  cv_codename :: string
  cv_vote :: string
  cv_reasoning :: string

text \<open>The result of a council, without its \<open>message\<close> text.\<close>

record council_result =
  cr_status :: string
  cr_consensus :: js_number
  cr_votes :: "council_vote list"
  cr_proposal :: proposal

text \<open>\<open>s || d\<close> on an optional string: \<open>undefined\<close> and the empty string are falsy.\<close>

fun str_or :: "string option \<Rightarrow> string \<Rightarrow> string" where
  "str_or None d = d"
| "str_or (Some s) d = (if s = [] then d else s)"

definition gatherVote :: "exchange \<Rightarrow> agent \<Rightarrow> proposal \<Rightarrow> council_vote" where
  "gatherVote ask a p =
     (case ask a (VoteRequest p) 10000 of
        Inr deliberation \<Rightarrow>
          \<lparr>cv_agent = agent_id a, cv_codename = codename a,
           cv_vote = str_or (vote deliberation) ''abstain'',
           cv_reasoning = str_or (reasoning deliberation) []\<rparr>
      | Inl e \<Rightarrow>
          \<lparr>cv_agent = agent_id a, cv_codename = codename a,
           cv_vote = ''abstain'', cv_reasoning = ''Failed to respond in time''\<rparr>)"

definition council_execute :: "exchange \<Rightarrow> task \<Rightarrow> agent list \<Rightarrow> council_result" where
  "council_execute ask t ags =
     (let p = \<lparr>p_id = task_id t, p_type = task_type t, p_description = description t,
                p_amount = amount t, proposedBy = str_or (task_sender t) ''user''\<rparr>;
          votes = map (\<lambda>a. gatherVote ask a p) ags;
          approvals = length (filter (\<lambda>v. cv_vote v = ''approve'') votes);
          total = length votes;
          consensus = js_ratio approvals total;
          approved = js_ge consensus (Num (66 / 100))
      in \<lparr>cr_status = (if approved then ''approved'' else ''rejected''),
          cr_consensus = consensus, cr_votes = votes, cr_proposal = p\<rparr>)"

subsection \<open>Sequential\<close>

record trace_entry =
  te_agent :: string
  te_codename :: string
  te_input :: pipeline_value
  te_output :: reply

record sequential_result =
  sr_status :: string
  sr_finalResult :: pipeline_value
  sr_trace :: "trace_entry list"
  sr_steps :: nat

text \<open>
  The loop of \<open>SequentialArchitecture.execute\<close>, with the list of the agents it has
  queried so far as explicit state. The awaited query is not inside a \<open>try\<close>: a rejection
  leaves the loop and the method as an exception, and the trace built so far is lost
  with the method's frame.
\<close>

fun sequential_loop ::
  "exchange \<Rightarrow> agent list \<Rightarrow> pipeline_value \<Rightarrow> trace_entry list \<Rightarrow> string list
     \<Rightarrow> (js_error + sequential_result) \<times> string list" where
  "sequential_loop ask [] currentInput trace queried =
     (Inr \<lparr>sr_status = ''completed'', sr_finalResult = currentInput,
           sr_trace = trace, sr_steps = length trace\<rparr>, queried)"
| "sequential_loop ask (a # rest) currentInput trace queried =
     (case ask a (PipelineStep currentInput (length trace + 1)) 30000 of
        Inl e \<Rightarrow> (Inl e, queried @ [agent_id a])
      | Inr result \<Rightarrow>
          sequential_loop ask rest (ReplyValue result)
            (trace @ [\<lparr>te_agent = agent_id a, te_codename = codename a,
                        te_input = currentInput, te_output = result\<rparr>])
            (queried @ [agent_id a]))"

definition sequential_execute ::
  "exchange \<Rightarrow> task \<Rightarrow> agent list \<Rightarrow> (js_error + sequential_result) \<times> string list" where
  "sequential_execute ask t ags = sequential_loop ask ags (TaskValue t) [] []"

subsection \<open>Concurrent\<close>

datatype synthesis =
    SynReply reply
  | SynMerged "string option list" "string option list"
  | SynUndefined

record concurrent_result =
  cn_status :: string
  cn_results :: "reply list"
  cn_failures :: "js_error list"
  cn_synthesis :: synthesis
  cn_agents :: "string list"

text \<open>\<open>Array.prototype.reduce\<close> without an initial value throws on an empty array.\<close>

definition reduce :: "('a \<Rightarrow> 'a \<Rightarrow> 'a) \<Rightarrow> 'a list \<Rightarrow> js_error + 'a" where
  "reduce f xs =
     (case xs of
        [] \<Rightarrow> Inl (TypeError ''Reduce of empty array with no initial value'')
      | x # rest \<Rightarrow> Inr (foldl f x rest))"

definition synthesizeResults :: "reply list \<Rightarrow> task \<Rightarrow> js_error + synthesis" where
  "synthesizeResults results t =
     (if synthesisType t = Some ''best'' then
        (case reduce (\<lambda>best current.
                 if js_gt (to_number (confidence current)) (to_number (confidence best))
                 then current else best) results of
           Inl e \<Rightarrow> Inl e
         | Inr r \<Rightarrow> Inr (SynReply r))
      else if synthesisType t = Some ''merge'' then
        Inr (SynMerged (map data results) (map source results))
      else
        Inr (case results of [] \<Rightarrow> SynUndefined | r # _ \<Rightarrow> SynReply r))"

text \<open>The values of the fulfilled, and the reasons of the rejected, settlements.\<close>

fun fulfilled :: "('e + 'a) list \<Rightarrow> 'a list" where
  "fulfilled [] = []"
| "fulfilled (Inr v # rs) = v # fulfilled rs"
| "fulfilled (Inl e # rs) = fulfilled rs"

fun rejected :: "('e + 'a) list \<Rightarrow> 'e list" where
  "rejected [] = []"
| "rejected (Inr v # rs) = rejected rs"
| "rejected (Inl e # rs) = e # rejected rs"

definition executeSubtask :: "exchange \<Rightarrow> agent \<Rightarrow> task \<Rightarrow> js_error + reply" where
  "executeSubtask ask a t = ask a (ConcurrentTask t) 30000"

definition concurrent_execute ::
  "exchange \<Rightarrow> task \<Rightarrow> agent list \<Rightarrow> js_error + concurrent_result" where
  "concurrent_execute ask t ags =
     (let results = map (\<lambda>a. executeSubtask ask a t) ags;
          successful = fulfilled results;
          failed = rejected results
      in case synthesizeResults successful t of
           Inl e \<Rightarrow> Inl e
         | Inr syn \<Rightarrow>
             Inr \<lparr>cn_status = (if length failed = 0 then ''success'' else ''partial''),
                  cn_results = successful, cn_failures = failed,
                  cn_synthesis = syn, cn_agents = map agent_id ags\<rparr>)"

subsection \<open>Competitive\<close>

record competitor =
  cp_agent :: string
  cp_codename :: string
  cp_result :: reply
  executionTime :: nat

record scored_competitor = competitor +
  score :: js_number

record competitive_result =
  cm_status :: string
  cm_winner :: scored_competitor
  cm_allResults :: "scored_competitor list"

text \<open>
  \<open>Promise.all\<close> is fulfilled with all the values when every promise is fulfilled, and
  is rejected as soon as one of them is rejected. Which rejection it reports when
  several promises are rejected depends on the order in which they settle; the model
  reports the first in list order (the order in which timers of equal delay fire).
\<close>

fun promise_all :: "('e + 'a) list \<Rightarrow> 'e + 'a list" where
  "promise_all [] = Inr []"
| "promise_all (Inl e # rs) = Inl e"
| "promise_all (Inr v # rs) = (case promise_all rs of Inl e \<Rightarrow> Inl e | Inr vs \<Rightarrow> Inr (v # vs))"

text \<open>\<open>elapsed a\<close> is what \<open>Date.now() - startTime\<close> measures for the branch of \<open>a\<close>.\<close>

definition compete ::
  "exchange \<Rightarrow> (agent \<Rightarrow> nat) \<Rightarrow> agent \<Rightarrow> task \<Rightarrow> js_error + competitor" where
  "compete ask elapsed a t =
     (case ask a (CompetitiveTask t) 60000 of
        Inl e \<Rightarrow> Inl e
      | Inr result \<Rightarrow>
          Inr \<lparr>cp_agent = agent_id a, cp_codename = codename a, cp_result = result,
               executionTime = elapsed a\<rparr>)"

definition evaluateResult :: "competitor \<Rightarrow> js_number" where
  "evaluateResult r =
     (let s0 = Num 0;
          s1 = js_add s0 (js_mul (or_default (quality (cp_result r)) (5 / 10)) (Num (6 / 10)));
          speedScore = Num (max 0 (1 - of_nat (executionTime r) / 30000));
          s2 = js_add s1 (js_mul speedScore (Num (3 / 10)));
          s3 = js_add s2 (js_mul (or_default (confidence (cp_result r)) (5 / 10)) (Num (1 / 10)))
      in s3)"

definition competitive_execute ::
  "exchange \<Rightarrow> (agent \<Rightarrow> nat) \<Rightarrow> task \<Rightarrow> agent list \<Rightarrow> js_error + competitive_result" where
  "competitive_execute ask elapsed t ags =
     (case promise_all (map (\<lambda>a. compete ask elapsed a t) ags) of
        Inl e \<Rightarrow> Inl e
      | Inr results \<Rightarrow>
          (let scored = map (\<lambda>r. competitor.extend r
                                    (scored_competitor.fields (evaluateResult r))) results
           in case reduce (\<lambda>best current.
                     if js_gt (score current) (score best) then current else best) scored of
                Inl e \<Rightarrow> Inl e
              | Inr winner \<Rightarrow>
                  Inr \<lparr>cm_status = ''completed'', cm_winner = winner,
                       cm_allResults = scored\<rparr>))"

section \<open>Envelopes\<close>

text \<open>
  Payloads are JSON-like values. An object is the list of its own properties in
  insertion order (keys distinct, none of them an array index).
\<close>

datatype js_value =
    JUndefined
  | JNull
  | JBool bool
  | JNumber js_number
  | JString string
  | JArray "js_value list"
  | JObject "(string \<times> js_value) list"

text \<open>
  What the code takes from Node and its environment: the secret of the process, the
  keyed hash \<open>crypto.createHmac('sha256', key).update(data).digest('hex')\<close>, and the
  primitives of \<open>JSON.stringify\<close> and \<open>Date\<close> that turn a string into its quoted form,
  a finite number into its decimal form and a time in milliseconds into its ISO text.
\<close>

record platform =
  MESSAGE_SECRET :: "string option"
  createHmac_sha256 :: "string \<Rightarrow> string \<Rightarrow> string"
  quoteJSONString :: "string \<Rightarrow> string"
  numberToString :: "rat \<Rightarrow> string"
  toISOString :: "nat \<Rightarrow> string"

fun join :: "string \<Rightarrow> string list \<Rightarrow> string" where
  "join sep [] = []"
| "join sep [x] = x"
| "join sep (x # y # ys) = x @ sep @ join sep (y # ys)"

text \<open>
  \<open>JSON.stringify\<close>: \<open>None\<close> is the result \<open>undefined\<close>. A property whose value has no
  JSON text is left out of an object; such an element of an array is written \<open>null\<close>;
  \<open>NaN\<close> is written \<open>null\<close>.
\<close>

fun JSON_stringify :: "platform \<Rightarrow> js_value \<Rightarrow> string option" where
  "JSON_stringify pf JUndefined = None"
| "JSON_stringify pf JNull = Some ''null''"
| "JSON_stringify pf (JBool b) = Some (if b then ''true'' else ''false'')"
| "JSON_stringify pf (JNumber NaN) = Some ''null''"
| "JSON_stringify pf (JNumber (Num r)) = Some (numberToString pf r)"
| "JSON_stringify pf (JString s) = Some (quoteJSONString pf s)"
| "JSON_stringify pf (JArray xs) =
     Some (''['' @ join '',''
             (map (\<lambda>x. case JSON_stringify pf x of None \<Rightarrow> ''null'' | Some s \<Rightarrow> s) xs) @ '']'')"
| "JSON_stringify pf (JObject kvs) =
     Some (''{'' @ join '',''
             (concat (map (\<lambda>kv. case JSON_stringify pf (snd kv) of
                                   None \<Rightarrow> []
                                 | Some s \<Rightarrow> [quoteJSONString pf (fst kv) @ '':'' @ s]) kvs))
           @ ''}'')"

text \<open>
  A way of quoting strings is prefix-free when a quoted string followed by any text can
  be read back in one way only. The quoting of \<open>JSON.stringify\<close> is: it ends a string at
  the first double quote that is not escaped.
\<close>

definition prefix_free :: "(string \<Rightarrow> string) \<Rightarrow> bool" where
  "prefix_free q \<longleftrightarrow> (\<forall>a b x y. q a @ x = q b @ y \<longrightarrow> a = b \<and> x = y)"

datatype recipient_spec = One string | Many "string list"

record message =
  msg_id :: string
  timestamp :: nat
  sender :: string
  recipients :: recipient_spec
  msg_type :: string
  payload :: js_value
  priority :: nat
  ttl :: int
  signature :: string

text \<open>The argument of the constructor; \<open>priority\<close> and \<open>ttl\<close> may be left out.\<close>

record message_data =
  md_sender :: string
  md_type :: string
  md_payload :: js_value
  md_priority :: "nat option"
  md_ttl :: "int option"

definition secret :: "platform \<Rightarrow> string" where
  "secret pf = str_or (MESSAGE_SECRET pf) ''default-secret''"

text \<open>The text that is signed: the JSON of the five signed fields, in this order.\<close>

definition signed_text :: "platform \<Rightarrow> message \<Rightarrow> string" where
  "signed_text pf m =
     the (JSON_stringify pf
       (JObject [(''id'', JString (msg_id m)),
                 (''timestamp'', JString (toISOString pf (timestamp m))),
                 (''sender'', JString (sender m)),
                 (''type'', JString (msg_type m)),
                 (''payload'', payload m)]))"

definition sign :: "platform \<Rightarrow> message \<Rightarrow> string" where
  "sign pf m = createHmac_sha256 pf (secret pf) (signed_text pf m)"

definition verify :: "platform \<Rightarrow> message \<Rightarrow> bool" where
  "verify pf m = (signature m = sign pf m)"

text \<open>
  \<open>new Message({sender, recipients, type, payload, priority = 3, ttl = 300})\<close>;
  \<open>uuid\<close> is what \<open>crypto.randomUUID()\<close> returns and \<open>now\<close> the time of the call.
\<close>

definition Message_new ::
  "platform \<Rightarrow> string \<Rightarrow> nat \<Rightarrow> message_data \<Rightarrow> recipient_spec \<Rightarrow> message" where
  "Message_new pf uuid now md rcpts =
     (let m = \<lparr>msg_id = uuid, timestamp = now, sender = md_sender md, recipients = rcpts,
                msg_type = md_type md, payload = md_payload md,
                priority = (case md_priority md of None \<Rightarrow> 3 | Some p \<Rightarrow> p),
                ttl = (case md_ttl md of None \<Rightarrow> 300 | Some s \<Rightarrow> s),
                signature = []\<rparr>
      in m\<lparr>signature := sign pf m\<rparr>)"

section \<open>Message bus\<close>

record agent_record =
  subscriptions :: "string list"
  lastSeen :: nat

record bus =
  agents :: "(string \<times> agent_record) list"
  channels :: "(string \<times> string list) list"
  messageHistory :: "message list"
  maxHistory :: nat
  messagesSent :: nat
  messagesReceived :: nat
  messagesExpired :: nat

text \<open>
  A \<open>Map\<close> is an association list in insertion order: \<open>set\<close> on a key it has keeps the
  key's place. A \<open>Set\<close> is a list without repetitions in insertion order.
\<close>

fun map_set :: "'k \<Rightarrow> 'v \<Rightarrow> ('k \<times> 'v) list \<Rightarrow> ('k \<times> 'v) list" where
  "map_set k v [] = [(k, v)]"
| "map_set k v (p # ps) = (if fst p = k then (k, v) # ps else p # map_set k v ps)"

definition map_delete :: "'k \<Rightarrow> ('k \<times> 'v) list \<Rightarrow> ('k \<times> 'v) list" where
  "map_delete k ps = filter (\<lambda>p. fst p \<noteq> k) ps"

definition set_add :: "'a \<Rightarrow> 'a list \<Rightarrow> 'a list" where
  "set_add x xs = (if x \<in> set xs then xs else xs @ [x])"

definition set_delete :: "'a \<Rightarrow> 'a list \<Rightarrow> 'a list" where
  "set_delete x xs = filter (\<lambda>y. y \<noteq> x) xs"

text \<open>\<open>options.maxHistory || 10000\<close>: a missing capacity and the capacity \<open>0\<close> are falsy.\<close>

definition MessageBus_new :: "nat option \<Rightarrow> bus" where
  "MessageBus_new opt =
     \<lparr>agents = [], channels = [], messageHistory = [],
      maxHistory = (case opt of None \<Rightarrow> 10000 | Some n \<Rightarrow> if n = 0 then 10000 else n),
      messagesSent = 0, messagesReceived = 0, messagesExpired = 0\<rparr>"

definition subscribe :: "string \<Rightarrow> string \<Rightarrow> bus \<Rightarrow> bool \<times> bus" where
  "subscribe agentId channel b =
     (case map_of (agents b) agentId of
        None \<Rightarrow> (False, b)
      | Some rec \<Rightarrow>
          (let subs = (case map_of (channels b) channel of None \<Rightarrow> [] | Some s \<Rightarrow> s)
           in (True,
               b\<lparr>channels := map_set channel (set_add agentId subs) (channels b),
                 agents := map_set agentId
                   (rec\<lparr>subscriptions := set_add channel (subscriptions rec)\<rparr>) (agents b)\<rparr>)))"

definition unsubscribe :: "string \<Rightarrow> string \<Rightarrow> bus \<Rightarrow> bool \<times> bus" where
  "unsubscribe agentId channel b =
     (case map_of (agents b) agentId of
        None \<Rightarrow> (False, b)
      | Some rec \<Rightarrow>
          (True,
           b\<lparr>channels :=
               (case map_of (channels b) channel of
                  None \<Rightarrow> channels b
                | Some s \<Rightarrow> map_set channel (set_delete agentId s) (channels b)),
             agents := map_set agentId
               (rec\<lparr>subscriptions := set_delete channel (subscriptions rec)\<rparr>) (agents b)\<rparr>))"

definition registerAgent :: "string \<Rightarrow> nat \<Rightarrow> bus \<Rightarrow> bus" where
  "registerAgent agentId now b =
     snd (subscribe agentId agentId
            (b\<lparr>agents := map_set agentId \<lparr>subscriptions = [], lastSeen = now\<rparr> (agents b)\<rparr>))"

definition unregisterAgent :: "string \<Rightarrow> bus \<Rightarrow> bus" where
  "unregisterAgent agentId b =
     (case map_of (agents b) agentId of
        None \<Rightarrow> b
      | Some rec \<Rightarrow>
          (let b1 = foldl (\<lambda>s channel. snd (unsubscribe agentId channel s)) b (subscriptions rec)
           in b1\<lparr>agents := map_delete agentId (agents b1)\<rparr>))"

datatype delivery = Delivered string | Failed string string

text \<open>
  \<open>send(message)\<close>. \<open>receiveMessage r m\<close> tells how the registered agent \<open>r\<close> handles the
  envelope: \<open>None\<close> when its \<open>receiveMessage\<close> returns, \<open>Some reason\<close> when it throws an
  error with that message. The envelope enters the history before any delivery. What
  an agent itself sends while it handles the envelope is a further \<open>send\<close> on the bus.
  The model type makes every argument an instance of \<open>Message\<close>.
\<close>

definition resolve_recipients :: "bus \<Rightarrow> message \<Rightarrow> string list" where
  "resolve_recipients b m =
     (case recipients m of
        One r \<Rightarrow> if r = ''broadcast'' then map fst (agents b) else [r]
      | Many rs \<Rightarrow> rs)"

definition deliver :: "(string \<Rightarrow> message \<Rightarrow> string option) \<Rightarrow> bus \<Rightarrow> message \<Rightarrow> string \<Rightarrow> delivery" where
  "deliver receiveMessage b m recipientId =
     (case map_of (agents b) recipientId of
        None \<Rightarrow> Failed recipientId ''agent_not_found''
      | Some rec \<Rightarrow>
          (case receiveMessage recipientId m of
             None \<Rightarrow> Delivered recipientId
           | Some reason \<Rightarrow> Failed recipientId reason))"

fun is_delivered :: "delivery \<Rightarrow> bool" where
  "is_delivered (Delivered r) = True"
| "is_delivered (Failed r reason) = False"

definition send ::
  "platform \<Rightarrow> (string \<Rightarrow> message \<Rightarrow> string option) \<Rightarrow> message \<Rightarrow> bus
     \<Rightarrow> js_error + delivery list \<times> bus" where
  "send pf receiveMessage m b =
     (if \<not> verify pf m then Inl (Error ''Message signature verification failed'')
      else
        (let pushed = messageHistory b @ [m];
             history = (if length pushed > maxHistory b then tl pushed else pushed);
             deliveries = map (deliver receiveMessage b m) (resolve_recipients b m)
         in Inr (deliveries,
                 b\<lparr>messageHistory := history,
                   messagesSent := messagesSent b + 1,
                   messagesReceived :=
                     messagesReceived b + length (filter is_delivered deliveries)\<rparr>)))"

datatype broadcast_result = NoSubscribers string | Deliveries "delivery list"

text \<open>
  The current subscribers of a channel, \<open>this.channels.get(channel)\<close>; a channel that
  the bus does not know has none.
\<close>

definition subscribers_of :: "bus \<Rightarrow> string \<Rightarrow> string list" where
  "subscribers_of b channel = (case map_of (channels b) channel of None \<Rightarrow> [] | Some s \<Rightarrow> s)"

definition broadcast ::
  "platform \<Rightarrow> (string \<Rightarrow> message \<Rightarrow> string option) \<Rightarrow> string \<Rightarrow> message_data \<Rightarrow> string \<Rightarrow> nat
     \<Rightarrow> bus \<Rightarrow> js_error + broadcast_result \<times> bus" where
  "broadcast pf receiveMessage channel messageData uuid now b =
     (case map_of (channels b) channel of
        None \<Rightarrow> Inr (NoSubscribers channel, b)
      | Some subscribers \<Rightarrow>
          if length subscribers = 0 then Inr (NoSubscribers channel, b)
          else
            (case send pf receiveMessage
                    (Message_new pf uuid now messageData (Many subscribers)) b of
               Inl e \<Rightarrow> Inl e
             | Inr (ds, b') \<Rightarrow> Inr (Deliveries ds, b')))"

text \<open>
  \<open>cleanup()\<close> at the time \<open>now\<close> (milliseconds): an entry is expired when its timestamp
  plus its \<open>ttl\<close> seconds lies before \<open>now\<close>.
\<close>

definition expired :: "nat \<Rightarrow> message \<Rightarrow> bool" where
  "expired now m = (int (timestamp m) + ttl m * 1000 < int now)"

definition cleanup :: "nat \<Rightarrow> bus \<Rightarrow> bus" where
  "cleanup now b =
     b\<lparr>messageHistory := filter (\<lambda>m. \<not> expired now m) (messageHistory b),
       messagesExpired := messagesExpired b + length (filter (expired now) (messageHistory b))\<rparr>"

text \<open>The operations of the bus, and a run of them from a state.\<close>

datatype bus_op =
    RegisterAgent string nat
  | UnregisterAgent string
  | Subscribe string string
  | Unsubscribe string string
  | Send message
  | Broadcast string message_data string nat
  | Cleanup nat

fun apply_op ::
  "platform \<Rightarrow> (string \<Rightarrow> message \<Rightarrow> string option) \<Rightarrow> bus \<Rightarrow> bus_op \<Rightarrow> bus" where
  "apply_op pf rcv b (RegisterAgent a now) = registerAgent a now b"
| "apply_op pf rcv b (UnregisterAgent a) = unregisterAgent a b"
| "apply_op pf rcv b (Subscribe a c) = snd (subscribe a c b)"
| "apply_op pf rcv b (Unsubscribe a c) = snd (unsubscribe a c b)"
| "apply_op pf rcv b (Send m) = (case send pf rcv m b of Inl e \<Rightarrow> b | Inr (ds, b') \<Rightarrow> b')"
| "apply_op pf rcv b (Broadcast c md uuid now) =
     (case broadcast pf rcv c md uuid now b of Inl e \<Rightarrow> b | Inr (r, b') \<Rightarrow> b')"
| "apply_op pf rcv b (Cleanup now) = cleanup now b"

definition run_ops ::
  "platform \<Rightarrow> (string \<Rightarrow> message \<Rightarrow> string option) \<Rightarrow> bus \<Rightarrow> bus_op list \<Rightarrow> bus" where
  "run_ops pf rcv b ops = foldl (apply_op pf rcv) b ops"

section \<open>Example inputs\<close>

definition plain_task :: "string option \<Rightarrow> task" where
  "plain_task ty =
     \<lparr>task_id = ''task-1'', task_type = ty, description = None, task_sender = None,
      amount = None, severity = None, requiredSkills = None, preferredRole = None,
      synthesisType = None\<rparr>"

text \<open>An idle agent with the given metrics.\<close>

definition worker :: "agent_metrics \<Rightarrow> agent" where
  "worker m =
     \<lparr>agent_id = ''doctor'', role = ''COO'', codename = ''The Surgeon'',
      skills = [''incident_response'', ''system_monitoring'', ''devops''], status = idle,
      metrics = Some m\<rparr>"

text \<open>The metrics after one failed task, and after one failed and one completed task.\<close>

definition failed_once :: agent_metrics where
  "failed_once = updateMetrics 10 False initial_metrics"

definition failed_then_done :: agent_metrics where
  "failed_then_done = updateMetrics 10 True failed_once"

text \<open>A council of numbered members, the first 35 of which approve.\<close>

definition member :: "nat \<Rightarrow> agent" where
  "member n =
     \<lparr>agent_id = replicate (Suc n) (CHR ''m''), role = ''member'', codename = ''member'',
      skills = [], status = idle, metrics = Some initial_metrics\<rparr>"

definition say :: "string \<Rightarrow> reply" where
  "say v =
     \<lparr>vote = Some v, reasoning = None, quality = None, confidence = None, data = None,
      source = None\<rparr>"

definition first_35_approve :: exchange where
  "first_35_approve a req timeout =
     Inr (say (if length (agent_id a) \<le> 35 then ''approve'' else ''reject''))"

text \<open>Three agents, and an exchange in which the agent named \<open>bad\<close> times out.\<close>

definition staff :: "string \<Rightarrow> string \<Rightarrow> agent" where
  "staff i r =
     \<lparr>agent_id = i, role = r, codename = i, skills = [], status = idle,
      metrics = Some initial_metrics\<rparr>"

definition answer :: "string \<Rightarrow> reply" where
  "answer i =
     \<lparr>vote = None, reasoning = None, quality = Some (Num (9 / 10)),
      confidence = Some (Num (8 / 10)), data = Some ''done'', source = Some i\<rparr>"

definition fails_for :: "string \<Rightarrow> exchange" where
  "fails_for bad a req timeout =
     (if agent_id a = bad then Inl (QueryTimeout (agent_id a) timeout)
      else Inr (answer (agent_id a)))"

definition high_table :: "agent list" where
  "high_table =
     [staff ''adjudicator'' ''CFO'', staff ''john-wick'' ''CTO'', staff ''doctor'' ''COO'']"

text \<open>
  A platform to run the definitions on. The keyed hash of Node is not computed here:
  this stand-in pairs the key with the text. It quotes a string as \<open>JSON.stringify\<close>
  quotes printable ASCII text (a backslash before every double quote and backslash),
  writes every number as \<open>0\<close> and writes a time as that many dots.
\<close>

fun escape :: "string \<Rightarrow> string" where
  "escape [] = []"
| "escape (c # cs) =
     (if c = CHR 0x22 \<or> c = CHR 0x5C then CHR 0x5C # c # escape cs else c # escape cs)"

definition stand_in_platform :: platform where
  "stand_in_platform =
     \<lparr>MESSAGE_SECRET = None,
      createHmac_sha256 = (\<lambda>key text. key @ '':'' @ text),
      quoteJSONString = (\<lambda>s. CHR 0x22 # escape s @ [CHR 0x22]),
      numberToString = (\<lambda>r. ''0''),
      toISOString = (\<lambda>t. replicate t (CHR ''.''))\<rparr>"

text \<open>A report sent by \<open>winston\<close> with the given payload and time to live.\<close>

definition report :: "js_value \<Rightarrow> int option \<Rightarrow> message_data" where
  "report p seconds =
     \<lparr>md_sender = ''winston'', md_type = ''report'', md_payload = p,
      md_priority = None, md_ttl = seconds\<rparr>"

text \<open>Every registered agent handles every envelope without an error.\<close>

definition all_receive :: "string \<Rightarrow> message \<Rightarrow> string option" where
  "all_receive r m = None"

text \<open>An envelope for \<open>doctor\<close>, made on the stand-in platform.\<close>

definition envelope :: "string \<Rightarrow> nat \<Rightarrow> int option \<Rightarrow> message" where
  "envelope uuid now seconds =
     Message_new stand_in_platform uuid now (report JNull seconds) (One ''doctor'')"

text \<open>The invariant of the history: it holds no more entries than the capacity.\<close>

definition bounded :: "bus \<Rightarrow> bool" where
  "bounded b \<longleftrightarrow> length (messageHistory b) \<le> maxHistory b"

text \<open>A bus on which \<open>doctor\<close> and \<open>charon\<close> are registered and subscribed to \<open>council\<close>.\<close>

definition council_bus :: bus where
  "council_bus =
     run_ops stand_in_platform all_receive (MessageBus_new None)
       [RegisterAgent ''doctor'' 0, RegisterAgent ''charon'' 0,
        Subscribe ''doctor'' ''council'', Subscribe ''charon'' ''council'']"

text \<open>The exchange of agents whose \<open>query\<close> is \<open>BaseAgent.query\<close>, once the timer has fired.\<close>

definition timed_out :: exchange where
  "timed_out a req timeout = Inl (QueryTimeout (agent_id a) timeout)"

section \<open>Verified properties\<close>

subsection \<open>Routing\<close>

lemma selectArchitecture_own_rule:
  "map_of patterns (type_key t) = Some selector \<Longrightarrow> selectArchitecture t = Returned (selector t)"
  by (simp add: selectArchitecture_def)

lemma selectArchitecture_financial_approval:
  "task_type t = Some ''financial_approval'' \<Longrightarrow>
     selectArchitecture t =
       Returned (if js_gt (to_number (amount t)) (Num 500) then ''council'' else ''sequential'')"
  by (simp add: selectArchitecture_def type_key_def patterns_def)

lemma selectArchitecture_system_alert:
  "task_type t = Some ''system_alert'' \<Longrightarrow>
     selectArchitecture t =
       Returned (if severity t = Some ''critical'' then ''emergency'' else ''concurrent'')"
  by (simp add: selectArchitecture_def type_key_def patterns_def)

lemma selectArchitecture_unmatched:
  "type_key t \<notin> fst ` set patterns \<Longrightarrow> type_key t \<notin> fst ` set object_prototype \<Longrightarrow>
     selectArchitecture t = Returned ''sequential''"
proof -
  assume "type_key t \<notin> fst ` set patterns" and "type_key t \<notin> fst ` set object_prototype"
  then have "map_of patterns (type_key t) = None"
    and "map_of object_prototype (type_key t) = None"
    by (simp_all only: map_of_eq_None_iff not_False_eq_True)
  then show ?thesis by (simp add: selectArchitecture_def)
qed

text \<open>
  C5. \<open>selectArchitecture\<close> sends a \<open>financial_approval\<close> to the council above 500 and to
  the pipeline otherwise, and a \<open>system_alert\<close> to the emergency strategy when critical
  and to the concurrent one otherwise (the lemmas above). A type that matches no rule
  should give \<open>'sequential'\<close>; the type \<open>'toString'\<close> matches no rule, and the function
  returns the text \<open>'[object Undefined]'\<close> for it.
\<close>

theorem selectArchitecture_toString:
  "map_of patterns ''toString'' = None \<and>
   selectArchitecture (plain_task (Some ''toString'')) = Returned ''[object Undefined]''"
  by (simp add: selectArchitecture_def plain_task_def patterns_def object_prototype_def
      type_key_def)

subsection \<open>Scoring\<close>

text \<open>
  C4. The score should not fall when the recorded success rate rises. An agent whose
  one task failed has the success rate \<open>0\<close>, which \<open>successRate || 0.8\<close> replaces by
  \<open>0.8\<close>: it scores \<open>0.66\<close>, and the same agent with the higher success rate \<open>0.5\<close> scores
  \<open>0.6\<close>.
\<close>

theorem calculateAgentScore_zero_rate:
  "successRate failed_once = Num 0 \<and> successRate failed_then_done = Num (1 / 2) \<and>
   calculateAgentScore (worker failed_once) (plain_task None) = Num (33 / 50) \<and>
   calculateAgentScore (worker failed_then_done) (plain_task None) = Num (3 / 5)"
  by (simp add: calculateAgentScore_def worker_def failed_once_def failed_then_done_def
      plain_task_def updateMetrics_def initial_metrics_def js_ratio_def)

subsection \<open>Council\<close>

lemma council_threshold:
  "cr_consensus (council_execute ask t ags) =
     js_ratio (length (filter (\<lambda>v. cv_vote v = ''approve'')
                        (cr_votes (council_execute ask t ags)))) (length ags)
   \<and> length (cr_votes (council_execute ask t ags)) = length ags
   \<and> cr_status (council_execute ask t ags) =
     (if js_ge (cr_consensus (council_execute ask t ags)) (Num (66 / 100))
      then ''approved'' else ''rejected'')"
  by (simp add: council_execute_def Let_def)

text \<open>
  Below 50 votes the threshold \<open>0.66\<close> of the code and the two thirds of its comment
  accept the same tallies.
\<close>

lemma threshold_below_50:
  assumes "n < 50" and "k \<le> n"
  shows "js_ge (js_ratio k n) (Num (66 / 100)) = js_ge (js_ratio k n) (Num (2 / 3))"
proof (cases "n = 0")
  case True
  then show ?thesis by (simp add: js_ratio_def)
next
  case False
  then have pos: "(0::rat) < of_nat n" by simp
  have a: "(66 / 100 \<le> (of_nat k :: rat) / of_nat n) = (66 * n \<le> 100 * k)"
  proof -
    have "(66 / 100 \<le> (of_nat k :: rat) / of_nat n) = ((66::rat) * of_nat n \<le> 100 * of_nat k)"
      using pos by (simp add: field_simps)
    also have "\<dots> = ((of_nat (66 * n) :: rat) \<le> of_nat (100 * k))"
      by simp
    also have "\<dots> = (66 * n \<le> 100 * k)"
      by (simp only: of_nat_le_iff)
    finally show ?thesis .
  qed
  have b: "(2 / 3 \<le> (of_nat k :: rat) / of_nat n) = (2 * n \<le> 3 * k)"
  proof -
    have "(2 / 3 \<le> (of_nat k :: rat) / of_nat n) = ((2::rat) * of_nat n \<le> 3 * of_nat k)"
      using pos by (simp add: field_simps)
    also have "\<dots> = ((of_nat (2 * n) :: rat) \<le> of_nat (3 * k))"
      by simp
    also have "\<dots> = (2 * n \<le> 3 * k)"
      by (simp only: of_nat_le_iff)
    finally show ?thesis .
  qed
  from assms have "(66 * n \<le> 100 * k) = (2 * n \<le> 3 * k)" by arith
  with a b False show ?thesis by (simp add: js_ratio_def)
qed

lemma council_two_thirds_below_50:
  assumes "length ags < 50"
  shows "cr_status (council_execute ask t ags) =
     (if js_ge (cr_consensus (council_execute ask t ags)) (Num (2 / 3))
      then ''approved'' else ''rejected'')"
proof -
  let ?r = "council_execute ask t ags"
  let ?k = "length (filter (\<lambda>v. cv_vote v = ''approve'') (cr_votes ?r))"
  from council_threshold [of ask t ags]
  have c: "cr_consensus ?r = js_ratio ?k (length ags)"
    and n: "length (cr_votes ?r) = length ags"
    and s: "cr_status ?r =
      (if js_ge (cr_consensus ?r) (Num (66 / 100)) then ''approved'' else ''rejected'')"
    by blast+
  have "?k \<le> length (cr_votes ?r)" by (rule length_filter_le)
  with n have "?k \<le> length ags" by simp
  from threshold_below_50 [OF assms this] c s show ?thesis by simp
qed

text \<open>
  C1. The consensus is the number of approvals divided by the number of votes, and the
  motion should carry exactly when it is at least two thirds. The threshold of the code
  is \<open>0.66\<close>: with 35 approvals among 53 votes the consensus \<open>35/53\<close> is below two thirds
  and the status is \<open>'approved'\<close>.
\<close>

theorem council_35_of_53:
  "cr_status (council_execute first_35_approve (plain_task (Some ''financial_approval''))
      (map member [0..<53])) = ''approved'' \<and>
   cr_consensus (council_execute first_35_approve (plain_task (Some ''financial_approval''))
      (map member [0..<53])) = Num (35 / 53) \<and>
   \<not> js_ge (Num (35 / 53)) (Num (2 / 3))"
  by code_simp

subsection \<open>Queries\<close>

lemma query_run:
  "foldl (query_step targetAgent timeout) s events =
     (if TimerFired \<in> set events \<and> timer_armed s
      then s\<lparr>promise := reject (QueryTimeout targetAgent timeout) (promise s),
              timer_armed := False\<rparr>
      else s)"
proof (induction events arbitrary: s)
  case Nil
  show ?case by simp
next
  case (Cons ev evs)
  show ?case by (cases ev) (simp_all add: Cons.IH)
qed

text \<open>
  C6. Whatever happens after \<open>query\<close> is called, its promise is never fulfilled: it is
  pending until the timer fires and rejected with the timeout error from then on. So
  an exchange that a strategy starts through \<open>BaseAgent.query\<close> can only time out.
\<close>

theorem query_only_times_out:
  "promise (query targetAgent timeout events) =
     (if TimerFired \<in> set events then Rejected (QueryTimeout targetAgent timeout)
      else Pending)
   \<and> settlement (promise (query targetAgent timeout events)) =
     (if TimerFired \<in> set events then Some (Inl (QueryTimeout targetAgent timeout))
      else None)"
  by (simp add: query_def query_run query_start_def reject_def)

text \<open>
  What follows for a council of such agents, whatever they would have voted: every vote
  is recorded as an abstention and the motion is rejected.
\<close>

lemma council_of_timed_out_agents:
  "cr_status (council_execute timed_out t ags) = ''rejected''
   \<and> map cv_vote (cr_votes (council_execute timed_out t ags)) = replicate (length ags) ''abstain''"
proof -
  have votes: "map (cv_vote \<circ> (\<lambda>a. gatherVote timed_out a p)) ags
      = replicate (length ags) ''abstain''" for p
    by (induction ags) (simp_all add: gatherVote_def timed_out_def)
  have none: "filter (\<lambda>v. cv_vote v = ''approve'') (map (\<lambda>a. gatherVote timed_out a p) ags) = []"
    for p
    by (induction ags) (simp_all add: gatherVote_def timed_out_def)
  show ?thesis
    by (simp add: council_execute_def Let_def votes none js_ratio_def)
qed

subsection \<open>Sequential pipeline\<close>

lemma sequential_loop_append:
  "sequential_loop ask pre cur tr q = (Inr r, q') \<Longrightarrow>
     sequential_loop ask (pre @ rest) cur tr q
       = sequential_loop ask rest (sr_finalResult r) (sr_trace r) q'
     \<and> q' = q @ map agent_id pre \<and> sr_steps r = length (sr_trace r)"
proof (induction pre arbitrary: cur tr q)
  case Nil
  then show ?case by auto
next
  case (Cons a pre)
  show ?case
  proof (cases "ask a (PipelineStep cur (length tr + 1)) 30000")
    case (Inl e)
    with Cons.prems show ?thesis by simp
  next
    case (Inr result)
    with Cons.prems have "sequential_loop ask pre (ReplyValue result)
        (tr @ [\<lparr>te_agent = agent_id a, te_codename = codename a,
                  te_input = cur, te_output = result\<rparr>])
        (q @ [agent_id a]) = (Inr r, q')"
      by simp
    from Cons.IH [OF this] Inr show ?thesis by simp
  qed
qed

text \<open>
  C2, as stated, fails: when the second of three agents does not answer, the pipeline
  gives no result at all, with or without a partial trace; the caller gets the
  exception of the failed step.
\<close>

theorem sequential_no_partial_trace:
  "sequential_execute (fails_for ''john-wick'') (plain_task (Some ''strategic_planning''))
     high_table
   = (Inl (QueryTimeout ''john-wick'' 30000), [''adjudicator'', ''john-wick''])"
  by (simp add: sequential_execute_def fails_for_def staff_def high_table_def)

text \<open>
  C2, amended. When the agents \<open>pre\<close> all answer and the query of the next agent \<open>a\<close>
  fails with \<open>e\<close>, the execution ends with the exception \<open>e\<close> and no result, and the
  agents queried are those of \<open>pre\<close> and \<open>a\<close>: none of the remaining agents \<open>post\<close>.
\<close>

theorem sequential_failure_aborts:
  assumes "sequential_execute ask t pre = (Inr r, queried)"
    and "ask a (PipelineStep (sr_finalResult r) (sr_steps r + 1)) 30000 = Inl e"
  shows "sequential_execute ask t (pre @ a # post) = (Inl e, map agent_id pre @ [agent_id a])"
proof -
  from assms(1) have run: "sequential_loop ask pre (TaskValue t) [] [] = (Inr r, queried)"
    by (simp add: sequential_execute_def)
  from sequential_loop_append [OF run, of "a # post"] assms(2)
  show ?thesis by (simp add: sequential_execute_def)
qed

theorem sequential_failure_aborts_witness:
  "sequential_execute (fails_for ''john-wick'') (plain_task (Some ''strategic_planning''))
     ([staff ''adjudicator'' ''CFO''] @ staff ''john-wick'' ''CTO'' # [staff ''doctor'' ''COO''])
   = (Inl (QueryTimeout ''john-wick'' 30000),
      map agent_id [staff ''adjudicator'' ''CFO''] @ [agent_id (staff ''john-wick'' ''CTO'')])"
proof -
  let ?t = "plain_task (Some ''strategic_planning'')"
  let ?r = "\<lparr>sr_status = ''completed'', sr_finalResult = ReplyValue (answer ''adjudicator''),
     sr_trace = [\<lparr>te_agent = ''adjudicator'', te_codename = ''adjudicator'',
                  te_input = TaskValue ?t, te_output = answer ''adjudicator''\<rparr>],
     sr_steps = 1\<rparr>"
  have first: "sequential_execute (fails_for ''john-wick'') ?t [staff ''adjudicator'' ''CFO'']
     = (Inr ?r, [''adjudicator''])"
    by (simp add: sequential_execute_def fails_for_def staff_def)
  have second: "fails_for ''john-wick'' (staff ''john-wick'' ''CTO'')
      (PipelineStep (sr_finalResult ?r) (sr_steps ?r + 1)) 30000
     = Inl (QueryTimeout ''john-wick'' 30000)"
    by (simp add: fails_for_def staff_def)
  show ?thesis
    by (rule sequential_failure_aborts [OF first second])
qed

subsection \<open>Fan-out strategies\<close>

lemma promise_all_rejected:
  "rejected rs \<noteq> [] \<Longrightarrow> promise_all rs = Inl (hd (rejected rs))"
  by (induction rs rule: promise_all.induct) (auto split: sum.splits)

lemma rejected_member: "Inl e \<in> set rs \<Longrightarrow> e \<in> set (rejected rs)"
  by (induction rs rule: rejected.induct) auto

lemma rejected_compete:
  "rejected (map (\<lambda>a. compete ask elapsed a t) ags)
     = rejected (map (\<lambda>a. ask a (CompetitiveTask t) 60000) ags)"
  by (induction ags) (auto simp: compete_def split: sum.splits)

lemma synthesizeResults_returns:
  "synthesisType t \<noteq> Some ''best'' \<or> rs \<noteq> [] \<Longrightarrow> \<exists>syn. synthesizeResults rs t = Inr syn"
  by (cases rs) (simp_all add: synthesizeResults_def reduce_def)

text \<open>
  C3, as stated, fails for the competitive strategy: when one of three competitors does
  not answer, the execution ends with that exception and returns nothing, although the
  two other branches were fulfilled.
\<close>

theorem competitive_no_isolation:
  "competitive_execute (fails_for ''john-wick'') (\<lambda>a. 1200)
      (plain_task (Some ''complex_analysis'')) high_table
     = Inl (QueryTimeout ''john-wick'' 60000) \<and>
   fulfilled (map (\<lambda>a. fails_for ''john-wick'' a
                (CompetitiveTask (plain_task (Some ''complex_analysis''))) 60000) high_table)
     = [answer ''adjudicator'', answer ''doctor'']"
  by (simp add: competitive_execute_def compete_def fails_for_def high_table_def staff_def)

text \<open>
  C3, amended. A concurrent execution isolates its branches: unless the synthesis mode
  is \<open>'best'\<close> and no branch is fulfilled, it returns a result that holds the value of
  every fulfilled branch and the reason of every rejected one, with the status
  \<open>'success'\<close> when no branch failed and \<open>'partial'\<close> otherwise. A competitive execution
  does not: when a branch fails, the execution fails with the reason of a failed branch
  and returns no result.
\<close>

theorem fan_out_failures:
  "(synthesisType t \<noteq> Some ''best''
      \<or> fulfilled (map (\<lambda>a. ask a (ConcurrentTask t) 30000) ags) \<noteq> [] \<longrightarrow>
      (\<exists>r. concurrent_execute ask t ags = Inr r
         \<and> cn_results r = fulfilled (map (\<lambda>a. ask a (ConcurrentTask t) 30000) ags)
         \<and> cn_failures r = rejected (map (\<lambda>a. ask a (ConcurrentTask t) 30000) ags)
         \<and> cn_status r = (if rejected (map (\<lambda>a. ask a (ConcurrentTask t) 30000) ags) = []
                           then ''success'' else ''partial'')))
   \<and> (a \<in> set ags \<and> ask a (CompetitiveTask t) 60000 = Inl e \<longrightarrow>
        (\<exists>e'. competitive_execute ask elapsed t ags = Inl e'
           \<and> e' \<in> set (rejected (map (\<lambda>a. ask a (CompetitiveTask t) 60000) ags))))"
proof (intro conjI impI)
  let ?rs = "map (\<lambda>a. ask a (ConcurrentTask t) 30000) ags"
  assume "synthesisType t \<noteq> Some ''best'' \<or> fulfilled ?rs \<noteq> []"
  then have "\<exists>syn. synthesizeResults (fulfilled ?rs) t = Inr syn"
    by (rule synthesizeResults_returns)
  then obtain syn where "synthesizeResults (fulfilled ?rs) t = Inr syn" ..
  then show "\<exists>r. concurrent_execute ask t ags = Inr r
         \<and> cn_results r = fulfilled ?rs \<and> cn_failures r = rejected ?rs
         \<and> cn_status r = (if rejected ?rs = [] then ''success'' else ''partial'')"
    by (simp add: concurrent_execute_def executeSubtask_def Let_def)
next
  let ?rs = "map (\<lambda>a. ask a (CompetitiveTask t) 60000) ags"
  let ?cs = "map (\<lambda>a. compete ask elapsed a t) ags"
  assume "a \<in> set ags \<and> ask a (CompetitiveTask t) 60000 = Inl e"
  then have "Inl e \<in> set ?rs" by force
  then have "e \<in> set (rejected ?rs)" by (rule rejected_member)
  then have ne: "rejected ?cs \<noteq> []" by (auto simp: rejected_compete)
  then have "promise_all ?cs = Inl (hd (rejected ?cs))" by (rule promise_all_rejected)
  moreover from ne have "hd (rejected ?cs) \<in> set (rejected ?rs)"
    by (simp add: rejected_compete)
  ultimately show "\<exists>e'. competitive_execute ask elapsed t ags = Inl e'
      \<and> e' \<in> set (rejected ?rs)"
    by (simp add: competitive_execute_def)
qed

theorem fan_out_failures_witness:
  "(\<exists>r. concurrent_execute (fails_for ''john-wick'') (plain_task (Some ''data_processing''))
          high_table = Inr r
      \<and> cn_results r = [answer ''adjudicator'', answer ''doctor'']
      \<and> cn_failures r = [QueryTimeout ''john-wick'' 30000]
      \<and> cn_status r = ''partial'')
   \<and> competitive_execute (fails_for ''john-wick'') (\<lambda>a. 1200)
        (plain_task (Some ''data_processing'')) high_table
      = Inl (QueryTimeout ''john-wick'' 60000)"
  using fan_out_failures [of "plain_task (Some ''data_processing'')" "fails_for ''john-wick''"
      high_table "staff ''john-wick'' ''CTO''" "QueryTimeout ''john-wick'' 60000" "\<lambda>a. 1200"]
  by (simp add: plain_task_def fails_for_def high_table_def staff_def)

subsection \<open>Envelope signatures\<close>

lemma signed_text_fields:
  "msg_id m = msg_id m' \<Longrightarrow> timestamp m = timestamp m' \<Longrightarrow> sender m = sender m' \<Longrightarrow>
   msg_type m = msg_type m' \<Longrightarrow> payload m = payload m' \<Longrightarrow>
   signed_text pf m = signed_text pf m'"
  by (simp add: signed_text_def del: JSON_stringify.simps)

lemma verify_Message_new: "verify pf (Message_new pf uuid now md rcpts)"
proof -
  define m0 where "m0 =
     \<lparr>msg_id = uuid, timestamp = now, sender = md_sender md, recipients = rcpts,
      msg_type = md_type md, payload = md_payload md,
      priority = (case md_priority md of None \<Rightarrow> 3 | Some p \<Rightarrow> p),
      ttl = (case md_ttl md of None \<Rightarrow> 300 | Some s \<Rightarrow> s),
      signature = []\<rparr>"
  have new: "Message_new pf uuid now md rcpts = m0\<lparr>signature := sign pf m0\<rparr>"
    by (simp add: Message_new_def Let_def m0_def)
  have "signed_text pf (m0\<lparr>signature := sign pf m0\<rparr>) = signed_text pf m0"
    by (rule signed_text_fields) simp_all
  then show ?thesis
    unfolding new by (simp add: verify_def sign_def)
qed

lemma signed_text_unsigned_fields:
  "signed_text pf (m\<lparr>recipients := r, priority := p, ttl := s\<rparr>) = signed_text pf m"
  by (rule signed_text_fields) simp_all

lemma quote_cancel:
  assumes "prefix_free (quoteJSONString pf)"
  shows "(quoteJSONString pf a @ x = quoteJSONString pf b @ y) = (a = b \<and> x = y)"
  using assms unfolding prefix_free_def by blast

lemma signed_text_shape:
  "signed_text pf m =
     ''{'' @ quoteJSONString pf ''id'' @ '':'' @ quoteJSONString pf (msg_id m) @ '','' @
     quoteJSONString pf ''timestamp'' @ '':'' @
       quoteJSONString pf (toISOString pf (timestamp m)) @ '','' @
     quoteJSONString pf ''sender'' @ '':'' @ quoteJSONString pf (sender m) @ '','' @
     quoteJSONString pf ''type'' @ '':'' @ quoteJSONString pf (msg_type m) @
     (case JSON_stringify pf (payload m) of
        None \<Rightarrow> []
      | Some s \<Rightarrow> '','' @ quoteJSONString pf ''payload'' @ '':'' @ s) @ ''}''"
  by (cases "JSON_stringify pf (payload m)") (simp_all add: signed_text_def)

lemma payload_tail:
  "((case p of None \<Rightarrow> [] | Some s \<Rightarrow> '','' @ k @ '':'' @ s)
     = (case p' of None \<Rightarrow> [] | Some s \<Rightarrow> '','' @ k @ '':'' @ s)) = (p = p')"
  by (cases p; cases p') auto

text \<open>
  The signed text determines the four signed strings and the JSON text of the payload,
  and nothing else.
\<close>

lemma signed_text_inj:
  assumes q: "prefix_free (quoteJSONString pf)" and iso: "inj (toISOString pf)"
  shows "(signed_text pf m = signed_text pf m') =
     (msg_id m = msg_id m' \<and> timestamp m = timestamp m' \<and> sender m = sender m' \<and>
      msg_type m = msg_type m' \<and>
      JSON_stringify pf (payload m) = JSON_stringify pf (payload m'))"
  unfolding signed_text_shape
  by (simp add: quote_cancel [OF q] inj_eq [OF iso] payload_tail)

lemma escape_cancel:
  "escape a @ CHR 0x22 # x = escape b @ CHR 0x22 # y \<Longrightarrow> a = b \<and> x = y"
proof (induction a arbitrary: b)
  case Nil
  then show ?case by (cases b) (auto split: if_splits)
next
  case (Cons c cs)
  show ?case
  proof (cases b)
    case Nil
    with Cons.prems show ?thesis by (auto split: if_splits)
  next
    case (Cons d ds)
    with Cons.prems have "c = d \<and> escape cs @ CHR 0x22 # x = escape ds @ CHR 0x22 # y"
      by (auto split: if_splits)
    with Cons.IH [of ds] Cons show ?thesis by simp
  qed
qed

lemma stand_in_prefix_free: "prefix_free (quoteJSONString stand_in_platform)"
  by (auto simp: prefix_free_def stand_in_platform_def dest: escape_cancel)

lemma stand_in_toISOString: "inj (toISOString stand_in_platform)"
  by (simp add: inj_on_def stand_in_platform_def replicate_eq_replicate)

text \<open>
  C7, as stated, fails: \<open>JSON.stringify\<close> writes \<open>null\<close> for both \<open>null\<close> and \<open>NaN\<close>, so
  on every platform an envelope whose payload \<open>null\<close> is changed to \<open>NaN\<close> after
  construction still verifies.
\<close>

theorem verify_blind_to_NaN:
  "\<forall>pf. verify pf (Message_new pf ''id-1'' 0 (report JNull None) (One ''doctor''))
      \<and> payload (Message_new pf ''id-1'' 0 (report JNull None) (One ''doctor'')) \<noteq> JNumber NaN
      \<and> verify pf ((Message_new pf ''id-1'' 0 (report JNull None) (One ''doctor''))
                     \<lparr>payload := JNumber NaN\<rparr>)"
  by (simp add: verify_def Message_new_def Let_def sign_def signed_text_def report_def)

text \<open>
  C7, amended. \<open>verify\<close> holds exactly when the stored signature is the keyed hash of the
  JSON text of the signed fields. Let the fields of a verified envelope be changed and
  its signature kept, on a platform whose quoting is prefix-free and whose times have
  distinct ISO texts, and let the keyed hash not collide on the old and the new text.
  Then \<open>verify\<close> holds afterwards exactly when \<open>id\<close>, \<open>timestamp\<close>, \<open>sender\<close> and \<open>type\<close> are
  what they were and the payload has the JSON text it had: a change of any of the four
  strings, or of the payload's JSON text, makes it false; a change of the payload that
  does not show in its JSON text leaves it true.
\<close>

theorem verify_after_mutation:
  assumes "prefix_free (quoteJSONString pf)" and "inj (toISOString pf)"
    and "verify pf m" and "signature m' = signature m"
    and "signed_text pf m' \<noteq> signed_text pf m \<Longrightarrow>
           createHmac_sha256 pf (secret pf) (signed_text pf m')
             \<noteq> createHmac_sha256 pf (secret pf) (signed_text pf m)"
  shows "(verify pf m' \<longleftrightarrow>
            signature m' = createHmac_sha256 pf (secret pf) (signed_text pf m'))
       \<and> (verify pf m' \<longleftrightarrow>
            msg_id m' = msg_id m \<and> timestamp m' = timestamp m \<and> sender m' = sender m \<and>
            msg_type m' = msg_type m \<and>
            JSON_stringify pf (payload m') = JSON_stringify pf (payload m))"
proof -
  from assms(3,4) have "verify pf m' \<longleftrightarrow>
      createHmac_sha256 pf (secret pf) (signed_text pf m')
        = createHmac_sha256 pf (secret pf) (signed_text pf m)"
    by (auto simp: verify_def sign_def)
  also from assms(5) have "\<dots> \<longleftrightarrow> signed_text pf m' = signed_text pf m"
    by auto
  also note signed_text_inj [OF assms(1,2)]
  finally show ?thesis
    by (simp add: verify_def sign_def)
qed

theorem verify_after_mutation_witness:
  "verify stand_in_platform
     (Message_new stand_in_platform ''id-1'' 0 (report JNull None) (One ''doctor''))
   \<and> \<not> verify stand_in_platform
       ((Message_new stand_in_platform ''id-1'' 0 (report JNull None) (One ''doctor''))
          \<lparr>sender := ''charon''\<rparr>)
   \<and> verify stand_in_platform
       ((Message_new stand_in_platform ''id-1'' 0 (report JNull None) (One ''doctor''))
          \<lparr>payload := JNumber NaN\<rparr>)"
proof -
  let ?sp = stand_in_platform
  let ?m = "Message_new ?sp ''id-1'' 0 (report JNull None) (One ''doctor'')"
  let ?m1 = "?m\<lparr>sender := ''charon''\<rparr>"
  let ?m2 = "?m\<lparr>payload := JNumber NaN\<rparr>"
  have v: "verify ?sp ?m"
    by (rule verify_Message_new)
  have hash: "createHmac_sha256 ?sp (secret ?sp) t \<noteq> createHmac_sha256 ?sp (secret ?sp) t'"
    if "t \<noteq> t'" for t t'
    using that by (simp add: stand_in_platform_def)
  have fields: "sender ?m = ''winston''" "payload ?m = JNull"
    by (simp_all add: Message_new_def Let_def report_def)
  have "(verify ?sp ?m1 \<longleftrightarrow>
            signature ?m1 = createHmac_sha256 ?sp (secret ?sp) (signed_text ?sp ?m1))
       \<and> (verify ?sp ?m1 \<longleftrightarrow>
            msg_id ?m1 = msg_id ?m \<and> timestamp ?m1 = timestamp ?m \<and> sender ?m1 = sender ?m \<and>
            msg_type ?m1 = msg_type ?m \<and>
            JSON_stringify ?sp (payload ?m1) = JSON_stringify ?sp (payload ?m))"
  proof (rule verify_after_mutation [OF stand_in_prefix_free stand_in_toISOString v])
    show "signature ?m1 = signature ?m" by simp
    assume "signed_text ?sp ?m1 \<noteq> signed_text ?sp ?m"
    then show "createHmac_sha256 ?sp (secret ?sp) (signed_text ?sp ?m1)
        \<noteq> createHmac_sha256 ?sp (secret ?sp) (signed_text ?sp ?m)"
      by (rule hash)
  qed
  then have "verify ?sp ?m1 \<longleftrightarrow>
      msg_id ?m1 = msg_id ?m \<and> timestamp ?m1 = timestamp ?m \<and> sender ?m1 = sender ?m \<and>
      msg_type ?m1 = msg_type ?m \<and>
      JSON_stringify ?sp (payload ?m1) = JSON_stringify ?sp (payload ?m)"
    by (rule conjunct2)
  then have changed: "\<not> verify ?sp ?m1"
    by (simp add: fields)
  have "(verify ?sp ?m2 \<longleftrightarrow>
            signature ?m2 = createHmac_sha256 ?sp (secret ?sp) (signed_text ?sp ?m2))
       \<and> (verify ?sp ?m2 \<longleftrightarrow>
            msg_id ?m2 = msg_id ?m \<and> timestamp ?m2 = timestamp ?m \<and> sender ?m2 = sender ?m \<and>
            msg_type ?m2 = msg_type ?m \<and>
            JSON_stringify ?sp (payload ?m2) = JSON_stringify ?sp (payload ?m))"
  proof (rule verify_after_mutation [OF stand_in_prefix_free stand_in_toISOString v])
    show "signature ?m2 = signature ?m" by simp
    assume "signed_text ?sp ?m2 \<noteq> signed_text ?sp ?m"
    then show "createHmac_sha256 ?sp (secret ?sp) (signed_text ?sp ?m2)
        \<noteq> createHmac_sha256 ?sp (secret ?sp) (signed_text ?sp ?m)"
      by (rule hash)
  qed
  then have "verify ?sp ?m2 \<longleftrightarrow>
      msg_id ?m2 = msg_id ?m \<and> timestamp ?m2 = timestamp ?m \<and> sender ?m2 = sender ?m \<and>
      msg_type ?m2 = msg_type ?m \<and>
      JSON_stringify ?sp (payload ?m2) = JSON_stringify ?sp (payload ?m)"
    by (rule conjunct2)
  then have unchanged: "verify ?sp ?m2"
    by (simp add: fields)
  from v changed unchanged show ?thesis by blast
qed

subsection \<open>History of the bus\<close>

text \<open>
  C10. \<open>cleanup\<close> keeps, in their order, exactly the entries whose timestamp plus \<open>ttl\<close>
  seconds is not before the current time, counts the others as expired, and neither
  changes nor consults the capacity.
\<close>

theorem cleanup_removes_expired:
  "messageHistory (cleanup now b)
     = filter (\<lambda>m. \<not> (int (timestamp m) + ttl m * 1000 < int now)) (messageHistory b)
   \<and> messagesExpired (cleanup now b)
     = messagesExpired b
        + length (filter (\<lambda>m. int (timestamp m) + ttl m * 1000 < int now) (messageHistory b))
   \<and> maxHistory (cleanup now b) = maxHistory b
   \<and> messageHistory (cleanup now (b\<lparr>maxHistory := k\<rparr>)) = messageHistory (cleanup now b)"
  by (simp add: cleanup_def expired_def [abs_def])


text \<open>
  An envelope with a time to live of one second, sent at second 1, is gone after a
  \<open>cleanup\<close> two seconds later; one with the default time to live stays.
\<close>

lemma cleanup_after_two_seconds:
  "messageHistory
     (cleanup 3000
        (run_ops stand_in_platform all_receive (MessageBus_new None)
           [Send (envelope ''m1'' 1000 (Some 1)), Send (envelope ''m2'' 1000 None)]))
   = [envelope ''m2'' 1000 None]"
proof -
  have v: "\<And>u n s. verify stand_in_platform (envelope u n s)"
    by (simp add: envelope_def verify_Message_new)
  have e: "expired 3000 (envelope ''m1'' 1000 (Some 1))" "\<not> expired 3000 (envelope ''m2'' 1000 None)"
    by (simp_all add: expired_def envelope_def Message_new_def Let_def report_def)
  show ?thesis
    by (simp add: cleanup_def run_ops_def send_def v Let_def MessageBus_new_def e)
qed

lemma subscribe_history [simp]:
  "messageHistory (snd (subscribe a c b)) = messageHistory b"
  "maxHistory (snd (subscribe a c b)) = maxHistory b"
  by (simp_all add: subscribe_def Let_def split: option.splits)

lemma unsubscribe_history [simp]:
  "messageHistory (snd (unsubscribe a c b)) = messageHistory b"
  "maxHistory (snd (unsubscribe a c b)) = maxHistory b"
  by (simp_all add: unsubscribe_def split: option.splits)

lemma registerAgent_history [simp]:
  "messageHistory (registerAgent a now b) = messageHistory b"
  "maxHistory (registerAgent a now b) = maxHistory b"
  by (simp_all add: registerAgent_def)

lemma unsubscribe_all_history:
  "messageHistory (foldl (\<lambda>s channel. snd (unsubscribe a channel s)) b cs) = messageHistory b
   \<and> maxHistory (foldl (\<lambda>s channel. snd (unsubscribe a channel s)) b cs) = maxHistory b"
  by (induction cs arbitrary: b) simp_all

lemma unregisterAgent_history [simp]:
  "messageHistory (unregisterAgent a b) = messageHistory b"
  "maxHistory (unregisterAgent a b) = maxHistory b"
  by (simp_all add: unregisterAgent_def Let_def unsubscribe_all_history split: option.splits)

lemma send_history:
  "send pf rcv m b = Inr (ds, b') \<Longrightarrow>
     maxHistory b' = maxHistory b \<and>
     messageHistory b' =
       (if length (messageHistory b) < maxHistory b then messageHistory b @ [m]
        else tl (messageHistory b @ [m]))"
  by (auto simp: send_def Let_def split: if_splits)

lemma send_verified:
  "verify pf m \<Longrightarrow> \<exists>ds b'. send pf rcv m b = Inr (ds, b')"
  by (simp add: send_def Let_def)

lemma send_bounded:
  "bounded b \<Longrightarrow> send pf rcv m b = Inr (ds, b') \<Longrightarrow> bounded b'"
  by (drule send_history) (auto simp: bounded_def split: if_splits)

lemma broadcast_cases:
  "broadcast pf rcv c md uuid now b = Inr (r, b') \<Longrightarrow>
     b' = b \<or> (\<exists>ds. send pf rcv (Message_new pf uuid now md (Many (subscribers_of b c))) b = Inr (ds, b'))"
  by (auto simp: broadcast_def subscribers_of_def split: option.splits if_splits sum.splits)

lemma apply_op_maxHistory: "maxHistory (apply_op pf rcv b op) = maxHistory b"
proof (cases op)
  case (Send m)
  then show ?thesis by (auto split: sum.splits dest: send_history)
next
  case (Broadcast c md uuid now)
  then show ?thesis by (auto split: sum.splits dest!: broadcast_cases dest: send_history)
next
  case (Cleanup now)
  then show ?thesis by (simp add: cleanup_def)
qed simp_all

lemma apply_op_bounded: "bounded b \<Longrightarrow> bounded (apply_op pf rcv b op)"
proof (cases op)
  case (Send m)
  assume "bounded b"
  with Send show ?thesis by (auto split: sum.splits dest: send_bounded)
next
  case (Broadcast c md uuid now)
  assume "bounded b"
  with Broadcast show ?thesis by (auto split: sum.splits dest!: broadcast_cases dest: send_bounded)
next
  case (Cleanup now)
  assume b: "bounded b"
  have "length (filter (\<lambda>m. \<not> expired now m) (messageHistory b)) \<le> length (messageHistory b)"
    by (rule length_filter_le)
  also from b have "\<dots> \<le> maxHistory b" by (simp add: bounded_def)
  finally show ?thesis using Cleanup by (simp add: cleanup_def bounded_def)
qed (simp_all add: bounded_def)

lemma run_ops_invariant:
  "bounded b \<Longrightarrow> bounded (run_ops pf rcv b ops) \<and> maxHistory (run_ops pf rcv b ops) = maxHistory b"
  unfolding run_ops_def
  by (induction ops arbitrary: b) (simp_all add: apply_op_bounded apply_op_maxHistory)

lemma MessageBus_new_bounded: "bounded (MessageBus_new opt) \<and> 0 < maxHistory (MessageBus_new opt)"
  by (simp add: bounded_def MessageBus_new_def split: option.splits)

text \<open>
  C8. After any run of operations on a new bus the history holds at most \<open>maxHistory\<close>
  entries, and the capacity is the configured one (10000 by default). A \<open>send\<close> of a
  verified envelope appends it when there is room, and otherwise drops the oldest
  entry and appends it.
\<close>

theorem history_bounded_fifo:
  "length (messageHistory (run_ops pf rcv (MessageBus_new opt) ops))
      \<le> maxHistory (run_ops pf rcv (MessageBus_new opt) ops)
   \<and> maxHistory (run_ops pf rcv (MessageBus_new opt) ops)
      = (case opt of None \<Rightarrow> 10000 | Some n \<Rightarrow> if n = 0 then 10000 else n)
   \<and> (verify pf m \<longrightarrow>
        (\<exists>ds b'. send pf rcv m (run_ops pf rcv (MessageBus_new opt) ops) = Inr (ds, b')
           \<and> maxHistory b' = maxHistory (run_ops pf rcv (MessageBus_new opt) ops)
           \<and> messageHistory b' =
               (if length (messageHistory (run_ops pf rcv (MessageBus_new opt) ops))
                     < maxHistory (run_ops pf rcv (MessageBus_new opt) ops)
                then messageHistory (run_ops pf rcv (MessageBus_new opt) ops) @ [m]
                else tl (messageHistory (run_ops pf rcv (MessageBus_new opt) ops)) @ [m])))"
proof -
  let ?b = "run_ops pf rcv (MessageBus_new opt) ops"
  from MessageBus_new_bounded [of opt] run_ops_invariant [of "MessageBus_new opt" pf rcv ops]
  have inv: "bounded ?b" and cap: "maxHistory ?b = maxHistory (MessageBus_new opt)"
    and pos: "0 < maxHistory ?b"
    by simp_all
  have fifo: "\<exists>ds b'. send pf rcv m ?b = Inr (ds, b') \<and> maxHistory b' = maxHistory ?b
      \<and> messageHistory b' =
           (if length (messageHistory ?b) < maxHistory ?b then messageHistory ?b @ [m]
            else tl (messageHistory ?b) @ [m])" if "verify pf m"
  proof -
    from that obtain ds b' where s: "send pf rcv m ?b = Inr (ds, b')"
      using send_verified by blast
    from inv pos have "length (messageHistory ?b) < maxHistory ?b \<or> messageHistory ?b \<noteq> []"
      by (auto simp: bounded_def)
    with send_history [OF s] s show ?thesis by auto
  qed
  from inv cap fifo show ?thesis
    by (simp add: bounded_def MessageBus_new_def)
qed


theorem history_bounded_fifo_witness:
  "verify stand_in_platform (envelope ''m3'' 3000 None)
   \<and> (\<exists>ds b'. send stand_in_platform all_receive (envelope ''m3'' 3000 None)
          (run_ops stand_in_platform all_receive (MessageBus_new (Some 2))
             [RegisterAgent ''doctor'' 0, Send (envelope ''m1'' 1000 None),
              Send (envelope ''m2'' 2000 None)]) = Inr (ds, b')
        \<and> maxHistory b' = 2
        \<and> messageHistory b' = [envelope ''m2'' 2000 None, envelope ''m3'' 3000 None])"
proof -
  let ?ops = "[RegisterAgent ''doctor'' 0, Send (envelope ''m1'' 1000 None),
              Send (envelope ''m2'' 2000 None)]"
  let ?b = "run_ops stand_in_platform all_receive (MessageBus_new (Some 2)) ?ops"
  have v: "\<And>u n s. verify stand_in_platform (envelope u n s)"
    by (simp add: envelope_def verify_Message_new)
  have h: "messageHistory ?b = [envelope ''m1'' 1000 None, envelope ''m2'' 2000 None]"
    by (simp add: run_ops_def send_def v Let_def MessageBus_new_def)
  note fifo = history_bounded_fifo [of stand_in_platform all_receive "Some 2" ?ops
      "envelope ''m3'' 3000 None"]
  from fifo have cap: "maxHistory ?b = 2" by simp
  from fifo v obtain ds b' where
    "send stand_in_platform all_receive (envelope ''m3'' 3000 None) ?b = Inr (ds, b')"
    and "maxHistory b' = maxHistory ?b"
    and "messageHistory b' =
           (if length (messageHistory ?b) < maxHistory ?b
            then messageHistory ?b @ [envelope ''m3'' 3000 None]
            else tl (messageHistory ?b) @ [envelope ''m3'' 3000 None])"
    by blast
  with cap h v show ?thesis by simp
qed

subsection \<open>Broadcast\<close>

text \<open>
  C9. On a channel without subscribers \<open>broadcast\<close> returns \<open>no_subscribers\<close> with the
  channel and leaves the bus as it is, whatever identifier and time an envelope would
  get. Otherwise it is the \<open>send\<close> of a new envelope whose recipients are the current
  subscribers of the channel: one delivery per subscriber, one more message sent.
\<close>

theorem broadcast_delegates:
  "(subscribers_of b channel = [] \<longrightarrow>
      broadcast pf rcv channel md uuid now b = Inr (NoSubscribers channel, b))
   \<and> (subscribers_of b channel \<noteq> [] \<longrightarrow>
        recipients (Message_new pf uuid now md (Many (subscribers_of b channel)))
          = Many (subscribers_of b channel)
        \<and> broadcast pf rcv channel md uuid now b =
            (case send pf rcv (Message_new pf uuid now md (Many (subscribers_of b channel))) b of
               Inl e \<Rightarrow> Inl e
             | Inr (ds, b') \<Rightarrow> Inr (Deliveries ds, b'))
        \<and> (\<exists>b'. broadcast pf rcv channel md uuid now b =
               Inr (Deliveries
                      (map (deliver rcv b (Message_new pf uuid now md (Many (subscribers_of b channel))))
                           (subscribers_of b channel)), b')
              \<and> messagesSent b' = messagesSent b + 1))"
proof (intro conjI impI)
  assume "subscribers_of b channel = []"
  then show "broadcast pf rcv channel md uuid now b = Inr (NoSubscribers channel, b)"
    by (simp add: broadcast_def subscribers_of_def split: option.splits)
next
  show "recipients (Message_new pf uuid now md (Many (subscribers_of b channel)))
          = Many (subscribers_of b channel)"
    by (simp add: Message_new_def Let_def)
next
  assume ne: "subscribers_of b channel \<noteq> []"
  then show del: "broadcast pf rcv channel md uuid now b =
            (case send pf rcv (Message_new pf uuid now md (Many (subscribers_of b channel))) b of
               Inl e \<Rightarrow> Inl e
             | Inr (ds, b') \<Rightarrow> Inr (Deliveries ds, b'))"
    by (simp add: broadcast_def subscribers_of_def split: option.splits)
  have r: "recipients (Message_new pf uuid now md (Many (subscribers_of b channel)))
          = Many (subscribers_of b channel)"
    by (simp add: Message_new_def Let_def)
  show "\<exists>b'. broadcast pf rcv channel md uuid now b =
               Inr (Deliveries
                      (map (deliver rcv b (Message_new pf uuid now md (Many (subscribers_of b channel))))
                           (subscribers_of b channel)), b')
              \<and> messagesSent b' = messagesSent b + 1"
    unfolding del
    by (simp add: send_def verify_Message_new Let_def resolve_recipients_def r)
qed



lemma council_bus_eval:
  "agents council_bus =
     [(''doctor'', \<lparr>subscriptions = [''doctor'', ''council''], lastSeen = 0\<rparr>),
      (''charon'', \<lparr>subscriptions = [''charon'', ''council''], lastSeen = 0\<rparr>)]"
  "channels council_bus =
     [(''doctor'', [''doctor'']), (''charon'', [''charon'']), (''council'', [''doctor'', ''charon''])]"
  "messagesSent council_bus = 0"
  by (simp_all add: council_bus_def run_ops_def MessageBus_new_def registerAgent_def
      subscribe_def set_add_def Let_def)

theorem broadcast_delegates_witness:
  "broadcast stand_in_platform all_receive ''unused-channel'' (report JNull None) ''u1'' 5000
      council_bus = Inr (NoSubscribers ''unused-channel'', council_bus)
   \<and> subscribers_of council_bus ''council'' = [''doctor'', ''charon'']
   \<and> (\<exists>b'. broadcast stand_in_platform all_receive ''council'' (report JNull None) ''u1'' 5000
              council_bus = Inr (Deliveries [Delivered ''doctor'', Delivered ''charon''], b')
          \<and> messagesSent b' = 1)"
proof -
  have unused: "subscribers_of council_bus ''unused-channel'' = []"
    by (simp add: subscribers_of_def council_bus_eval)
  have council: "subscribers_of council_bus ''council'' = [''doctor'', ''charon'']"
    by (simp add: subscribers_of_def council_bus_eval)
  from broadcast_delegates [of council_bus "''unused-channel''" stand_in_platform all_receive
      "report JNull None" "''u1''" 5000] unused
  have 1: "broadcast stand_in_platform all_receive ''unused-channel'' (report JNull None) ''u1'' 5000
      council_bus = Inr (NoSubscribers ''unused-channel'', council_bus)"
    by simp
  have ne: "subscribers_of council_bus ''council'' \<noteq> []"
    by (simp add: council)
  from broadcast_delegates [of council_bus "''council''" stand_in_platform all_receive
      "report JNull None" "''u1''" 5000] ne
  have "\<exists>b'. broadcast stand_in_platform all_receive ''council'' (report JNull None) ''u1'' 5000
              council_bus =
            Inr (Deliveries
                   (map (deliver all_receive council_bus
                           (Message_new stand_in_platform ''u1'' 5000 (report JNull None)
                              (Many (subscribers_of council_bus ''council''))))
                        (subscribers_of council_bus ''council'')), b')
          \<and> messagesSent b' = messagesSent council_bus + 1"
    by blast
  then have 2: "\<exists>b'. broadcast stand_in_platform all_receive ''council'' (report JNull None) ''u1'' 5000
              council_bus = Inr (Deliveries [Delivered ''doctor'', Delivered ''charon''], b')
          \<and> messagesSent b' = 1"
    by (simp add: council deliver_def all_receive_def council_bus_eval)
  from 1 council 2 show ?thesis by simp
qed

end
